theory Spec2Isabelle
  imports Main
begin

section \<open>Password checks of the users package\<close>

text \<open>
  The file of the users package holds \<^verbatim>\<open>CheckUserPassword\<close>, \<^verbatim>\<open>ValidateIAM\<close> and
  \<^verbatim>\<open>IsPasswordValidWithSettings\<close>. Go's \<^verbatim>\<open>error\<close> result is a sum whose right
  injection \<open>Inr ()\<close> is \<^verbatim>\<open>nil\<close>.
\<close>

datatype ErrInvalidPassword = NewErrInvalidPassword string

record User =
  Username :: string
  Password :: string

record HttpResponse =
  StatusCode :: int

text \<open>
  The standard library calls of \<^verbatim>\<open>ValidateIAM\<close> are parameters: \<^verbatim>\<open>json.Marshal\<close> on
  the two-entry map (given here as its entries) and \<^verbatim>\<open>http.Post\<close>, whose left
  injection is the transport error.
\<close>

record Net =
  json_Marshal :: "(string \<times> string) list \<Rightarrow> string"
  http_Post :: "string \<Rightarrow> string \<Rightarrow> string \<Rightarrow> string + HttpResponse"

definition ValidateIAM :: "Net \<Rightarrow> string \<Rightarrow> string \<Rightarrow> bool" where
  "ValidateIAM net username password =
    (let rb = json_Marshal net [(''username'', username), (''password'', password)] in
     case http_Post net ''https://iam.pajak.or.id/api/authentication'' ''application/json'' rb of
       Inl err \<Rightarrow> False
     | Inr resp \<Rightarrow> if StatusCode resp = 200 then True else False)"

definition CheckUserPassword :: "Net \<Rightarrow> User \<Rightarrow> string \<Rightarrow> ErrInvalidPassword + unit" where
  "CheckUserPassword net user password =
    (if ValidateIAM net (Username user) password \<noteq> True
     then Inl (NewErrInvalidPassword '''')
     else Inr ())"

text \<open>
  \<^verbatim>\<open>model.PasswordSettings\<close> with its pointer fields dereferenced, and the constants of
  the model package that \<^verbatim>\<open>IsPasswordValidWithSettings\<close> reads; their declarations are
  not among the sources, so they are parameters.
\<close>

record PasswordSettings =
  MinimumLength :: int
  Lowercase :: bool
  Number :: bool
  Uppercase :: bool
  Symbol :: bool

record ModelConstants =
  PasswordMaximumLength :: int
  LowercaseLetters :: string
  UppercaseLetters :: string
  NUMBERS :: string
  SYMBOLS :: string

text \<open>
  \<^verbatim>\<open>strings.ContainsAny(s, chars)\<close> on byte strings: some byte of \<open>s\<close> occurs in
  \<open>chars\<close> (the character classes are ASCII).
\<close>

definition ContainsAny :: "string \<Rightarrow> string \<Rightarrow> bool" where
  "ContainsAny s chars = list_ex (\<lambda>c. c \<in> set chars) s"

definition IsPasswordValidWithSettings ::
  "ModelConstants \<Rightarrow> string \<Rightarrow> PasswordSettings \<Rightarrow> ErrInvalidPassword + unit" where
  "IsPasswordValidWithSettings m password settings =
    (let id0 = ''model.user.is_valid.pwd'';
         isError0 = False;
         isError1 = (if int (length password) < MinimumLength settings
                        \<or> int (length password) > PasswordMaximumLength m
                     then True else isError0);
         (id2, isError2) =
           (if Lowercase settings
            then (id0 @ ''_lowercase'',
                  if \<not> ContainsAny password (LowercaseLetters m) then True else isError1)
            else (id0, isError1));
         (id3, isError3) =
           (if Uppercase settings
            then (id2 @ ''_uppercase'',
                  if \<not> ContainsAny password (UppercaseLetters m) then True else isError2)
            else (id2, isError2));
         (id4, isError4) =
           (if Number settings
            then (id3 @ ''_number'',
                  if \<not> ContainsAny password (NUMBERS m) then True else isError3)
            else (id3, isError3));
         (id5, isError5) =
           (if Symbol settings
            then (id4 @ ''_symbol'',
                  if \<not> ContainsAny password (SYMBOLS m) then True else isError4)
            else (id4, isError4))
     in if isError5 then Inl (NewErrInvalidPassword (id5 @ ''.app_error'')) else Inr ())"

text \<open>The error id that the settings alone determine.\<close>

definition password_error_id :: "PasswordSettings \<Rightarrow> string" where
  "password_error_id settings =
     ''model.user.is_valid.pwd''
     @ (if Lowercase settings then ''_lowercase'' else '''')
     @ (if Uppercase settings then ''_uppercase'' else '''')
     @ (if Number settings then ''_number'' else '''')
     @ (if Symbol settings then ''_symbol'' else '''')
     @ ''.app_error''"

text \<open>Concrete inputs for the password checks.\<close>

definition iam_net :: Net where
  "iam_net =
    \<lparr>json_Marshal = (\<lambda>kvs. concat (map (\<lambda>(k, v). k @ ''='' @ v @ '';'') kvs)),
     http_Post = (\<lambda>url ct body.
        if body = ''username=alice;password=secret;''
        then Inr \<lparr>StatusCode = 200\<rparr> else Inr \<lparr>StatusCode = 401\<rparr>)\<rparr>"

definition ascii_constants :: ModelConstants where
  "ascii_constants =
    \<lparr>PasswordMaximumLength = 64,
     LowercaseLetters = ''abcdefghijklmnopqrstuvwxyz'',
     UppercaseLetters = ''ABCDEFGHIJKLMNOPQRSTUVWXYZ'',
     NUMBERS = ''0123456789'',
     SYMBOLS = ''!#$%&()*+,-./:;<=>?@[]^_|~''\<rparr>"

definition strict_settings :: PasswordSettings where
  "strict_settings =
    \<lparr>MinimumLength = 5, Lowercase = True, Number = True, Uppercase = False, Symbol = False\<rparr>"

section \<open>The request context of package api4\<close>

text \<open>
  Every handler of \<^verbatim>\<open>preference.go\<close> and \<^verbatim>\<open>scheme.go\<close> works on a \<^verbatim>\<open>*Context\<close>:
  the parameters of the request, the session, the application facade \<^verbatim>\<open>c.App\<close> and the
  error slot \<^verbatim>\<open>c.Err\<close>. The model adds a trace of what the handler did (oracle queries
  with their answers, facade calls, writes of the error slot, audit records, response
  writes), so that statements about the order of these steps can be made.
\<close>

datatype Permission =
    PermissionEditOtherUsers
  | PermissionReadChannel
  | PermissionSysconsoleWriteUserManagementPermissions
  | PermissionSysconsoleReadUserManagementPermissions
  | PermissionSysconsoleReadUserManagementTeams
  | PermissionSysconsoleReadUserManagementChannels

abbreviation StatusCreated :: int where "StatusCreated \<equiv> 201"
abbreviation StatusBadRequest :: int where "StatusBadRequest \<equiv> 400"
abbreviation StatusForbidden :: int where "StatusForbidden \<equiv> 403"
abbreviation StatusNotImplemented :: int where "StatusNotImplemented \<equiv> 501"

text \<open>
  \<^verbatim>\<open>*model.AppError\<close>. \<open>NewAppError location ident params details status\<close> is the
  constructor call of the sources. The other two constructors are the errors stored by
  the context helpers; see \<open>SetInvalidParam\<close> and \<open>SetPermissionError\<close> below.
\<close>

datatype AppError =
    NewAppError string string "(string \<times> string) list" string int
  | InvalidParamError string
  | PermissionError Permission

text \<open>
  Modelled from the spec: the HTTP status of a request error. The error built by
  \<^verbatim>\<open>model.NewAppError\<close> carries the status it was given; the helpers that build the other
  two errors are not among the sources, and the spec gives an invalid parameter status
  400 and a denied permission status 403.
\<close>

fun HttpStatus :: "AppError \<Rightarrow> int" where
  "HttpStatus (NewAppError location ident params details status) = status"
| "HttpStatus (InvalidParamError field) = StatusBadRequest"
| "HttpStatus (PermissionError permission) = StatusForbidden"

record Params =
  UserId :: string
  SchemeId :: string
  Category :: string
  PreferenceName :: string
  Scope :: string
  Page :: int
  PerPage :: int

record Session =
  Token :: string
  Roles :: string

record Scheme =
  DisplayName :: string
  Scope :: string

record SchemePatch =
  Description :: string

record Preference =
  Category :: string
  Name :: string
  Value :: string

type_synonym Preferences = "Preference list"

record Post =
  ChannelId :: string
  Message :: string

datatype Team = Team string

datatype Channel = Channel string

record Features =
  CustomPermissionsSchemes :: bool

record License =
  Features :: Features

text \<open>
  \<^verbatim>\<open>c.App\<close>: the licence, the permission oracle and the business facade. Their code
  is outside the handlers, so each is a parameter; a facade call returning
  \<^verbatim>\<open>(result, err)\<close> is a sum with the error on the left, and one returning only an
  error is an option.
\<close>

record App =
  License :: "License option"
  SessionHasPermissionTo :: "Session \<Rightarrow> Permission \<Rightarrow> bool"
  SessionHasPermissionToUser :: "Session \<Rightarrow> string \<Rightarrow> bool"
  SessionHasPermissionToChannel :: "Session \<Rightarrow> string \<Rightarrow> Permission \<Rightarrow> bool"
  CreateScheme :: "Scheme \<Rightarrow> AppError + Scheme"
  GetScheme :: "string \<Rightarrow> AppError + Scheme"
  PatchScheme :: "Scheme \<Rightarrow> SchemePatch \<Rightarrow> AppError + Scheme"
  DeleteScheme :: "string \<Rightarrow> AppError + Scheme"
  GetSchemesPage :: "string \<Rightarrow> int \<Rightarrow> int \<Rightarrow> AppError + Scheme list"
  GetTeamsForSchemePage :: "Scheme \<Rightarrow> int \<Rightarrow> int \<Rightarrow> AppError + Team list"
  GetChannelsForSchemePage :: "Scheme \<Rightarrow> int \<Rightarrow> int \<Rightarrow> AppError + Channel list"
  GetPreferencesForUser :: "string \<Rightarrow> AppError + Preferences"
  GetPreferenceByCategoryForUser :: "string \<Rightarrow> string \<Rightarrow> AppError + Preferences"
  GetPreferenceByCategoryAndNameForUser :: "string \<Rightarrow> string \<Rightarrow> string \<Rightarrow> AppError + Preference"
  UpdatePreferences :: "string \<Rightarrow> Preferences \<Rightarrow> AppError option"
  DeletePreferences :: "string \<Rightarrow> Preferences \<Rightarrow> AppError option"
  GetSinglePost :: "string \<Rightarrow> AppError + Post"

text \<open>
  The decoders of the model package that read \<^verbatim>\<open>r.Body\<close>; \<open>None\<close> is the \<^verbatim>\<open>nil\<close> that
  \<^verbatim>\<open>SchemeFromJson\<close> and \<^verbatim>\<open>SchemePatchFromJson\<close> return on a body they cannot decode.
\<close>

record Model =
  SchemeFromJson :: "string \<Rightarrow> Scheme option"
  SchemePatchFromJson :: "string \<Rightarrow> SchemePatch option"
  PreferencesFromJson :: "string \<Rightarrow> string + Preferences"

record Request =
  Body :: string

abbreviation PreferenceCategoryFlaggedPost :: string where
  "PreferenceCategoryFlaggedPost \<equiv> ''flagged_post''"
abbreviation SchemeScopeTeam :: string where "SchemeScopeTeam \<equiv> ''team''"
abbreviation SchemeScopeChannel :: string where "SchemeScopeChannel \<equiv> ''channel''"

subsection \<open>Audit records\<close>

datatype AuditStatus = audit_Fail | audit_Success

datatype MetaValue = SchemeMeta Scheme

record AuditRecord =
  EventName :: string
  Status :: AuditStatus
  Meta :: "(string \<times> MetaValue) list"

text \<open>
  Modelled from the spec: \<^verbatim>\<open>AddMeta\<close> of the audit package, which is not among the
  sources. The spec keeps the metadata as an ordered sequence to which every call
  appends, also for a key that is already there.
\<close>

definition AddMeta :: "string \<Rightarrow> MetaValue \<Rightarrow> AuditRecord \<Rightarrow> AuditRecord" where
  "AddMeta key val rec = rec\<lparr>Meta := Meta rec @ [(key, val)]\<rparr>"

text \<open>
  Modelled from the spec: \<^verbatim>\<open>Success\<close> of the audit package, which is not among the
  sources: it flips the status of the record to Success.
\<close>

definition Success :: "AuditRecord \<Rightarrow> AuditRecord" where
  "Success rec = rec\<lparr>Status := audit_Success\<rparr>"

subsection \<open>The trace and the context\<close>

datatype PermissionQuery =
    PermissionTo Session Permission
  | PermissionToUser Session string
  | PermissionToChannel Session string Permission

datatype FacadeCall =
    CreateScheme_call Scheme
  | GetScheme_call string
  | PatchScheme_call Scheme SchemePatch
  | DeleteScheme_call string
  | GetSchemesPage_call string int int
  | GetTeamsForSchemePage_call Scheme int int
  | GetChannelsForSchemePage_call Scheme int int
  | GetPreferencesForUser_call string
  | GetPreferenceByCategoryForUser_call string string
  | GetPreferenceByCategoryAndNameForUser_call string string string
  | UpdatePreferences_call string Preferences
  | DeletePreferences_call string Preferences
  | GetSinglePost_call string

datatype ResponseBody =
    PreferencesJson Preferences
  | PreferenceJson Preference
  | SchemeJson Scheme
  | SchemesJson "Scheme list"
  | TeamListJson "Team list"
  | ChannelListJson "Channel list"
  | StatusOK

datatype Event =
    Queried PermissionQuery bool
  | Called FacadeCall
  | ErrSet AppError
  | AuditRecMade AuditRecord
  | AuditRecLogged AuditRecord
  | AuditLogged string
  | HeaderWritten int
  | Written ResponseBody

record Context =
  App :: App
  Params :: Params
  Session :: Session
  Err :: "AppError option"
  Trace :: "Event list"

text \<open>The context as a handler receives it: no error, nothing done yet.\<close>

definition NewContext :: "App \<Rightarrow> Params \<Rightarrow> Session \<Rightarrow> Context" where
  "NewContext app params session =
     \<lparr>App = app, Params = params, Session = session, Err = None, Trace = []\<rparr>"

definition emit :: "Event \<Rightarrow> Context \<Rightarrow> Context" where
  "emit e c = c\<lparr>Trace := Trace c @ [e]\<rparr>"

text \<open>The assignment \<^verbatim>\<open>c.Err = err\<close>.\<close>

definition set_Err :: "AppError \<Rightarrow> Context \<Rightarrow> Context" where
  "set_Err err c = emit (ErrSet err) (c\<lparr>Err := Some err\<rparr>)"

text \<open>A call of the business facade, as it enters the trace.\<close>

definition call :: "FacadeCall \<Rightarrow> Context \<Rightarrow> Context" where
  "call k c = emit (Called k) c"

text \<open>The three questions to the permission oracle; the answer enters the trace.\<close>

definition askPermissionTo :: "Permission \<Rightarrow> Context \<Rightarrow> bool \<times> Context" where
  "askPermissionTo permission c =
    (let ok = SessionHasPermissionTo (App c) (Session c) permission
     in (ok, emit (Queried (PermissionTo (Session c) permission) ok) c))"

definition askPermissionToUser :: "string \<Rightarrow> Context \<Rightarrow> bool \<times> Context" where
  "askPermissionToUser userId c =
    (let ok = SessionHasPermissionToUser (App c) (Session c) userId
     in (ok, emit (Queried (PermissionToUser (Session c) userId) ok) c))"

definition askPermissionToChannel :: "string \<Rightarrow> Permission \<Rightarrow> Context \<Rightarrow> bool \<times> Context" where
  "askPermissionToChannel channelId permission c =
    (let ok = SessionHasPermissionToChannel (App c) (Session c) channelId permission
     in (ok, emit (Queried (PermissionToChannel (Session c) channelId permission) ok) c))"

text \<open>
  Modelled from the spec: \<^verbatim>\<open>Context.SetInvalidParam\<close>, which is not among the sources.
  It sets the request error to an invalid-parameter error that carries the identifier
  of the field, with status 400.
\<close>

definition SetInvalidParam :: "string \<Rightarrow> Context \<Rightarrow> Context" where
  "SetInvalidParam parameter c = set_Err (InvalidParamError parameter) c"

text \<open>
  Modelled from the spec: \<^verbatim>\<open>Context.SetPermissionError\<close>, which is not among the
  sources. It sets the request error to a permission-denied error identified by the
  permission, with status 403.
\<close>

definition SetPermissionError :: "Permission \<Rightarrow> Context \<Rightarrow> Context" where
  "SetPermissionError permission c = set_Err (PermissionError permission) c"

text \<open>
  Modelled from the spec: the checks of the validation chain, \<^verbatim>\<open>Context.RequireUserId\<close>,
  \<^verbatim>\<open>RequireSchemeId\<close>, \<^verbatim>\<open>RequireCategory\<close> and \<^verbatim>\<open>RequirePreferenceName\<close>, which are not
  among the sources. Each is a no-op once the error slot is set; otherwise it inspects
  one field of the parameters and, if the field is absent (empty), sets an
  invalid-parameter error that carries the identifier of the field. Each returns the
  context, so that the calls chain.
\<close>

definition RequireUserId :: "Context \<Rightarrow> Context" where
  "RequireUserId c =
    (if Err c \<noteq> None then c
     else if Params.UserId (Params c) = [] then SetInvalidParam ''UserId'' c
     else c)"

text \<open>Modelled from the spec: \<^verbatim>\<open>Context.RequireSchemeId\<close>, as described above.\<close>

definition RequireSchemeId :: "Context \<Rightarrow> Context" where
  "RequireSchemeId c =
    (if Err c \<noteq> None then c
     else if Params.SchemeId (Params c) = [] then SetInvalidParam ''SchemeId'' c
     else c)"

text \<open>Modelled from the spec: \<^verbatim>\<open>Context.RequireCategory\<close>, as described above.\<close>

definition RequireCategory :: "Context \<Rightarrow> Context" where
  "RequireCategory c =
    (if Err c \<noteq> None then c
     else if Params.Category (Params c) = [] then SetInvalidParam ''Category'' c
     else c)"

text \<open>Modelled from the spec: \<^verbatim>\<open>Context.RequirePreferenceName\<close>, as described above.\<close>

definition RequirePreferenceName :: "Context \<Rightarrow> Context" where
  "RequirePreferenceName c =
    (if Err c \<noteq> None then c
     else if Params.PreferenceName (Params c) = [] then SetInvalidParam ''PreferenceName'' c
     else c)"

text \<open>
  Modelled from the spec: \<^verbatim>\<open>Context.MakeAuditRecord\<close>, which is not among the sources.
  It begins a record for the named operation with the given status and no metadata.
\<close>

definition MakeAuditRecord :: "string \<Rightarrow> AuditStatus \<Rightarrow> Context \<Rightarrow> AuditRecord \<times> Context" where
  "MakeAuditRecord event initialStatus c =
    (let rec = \<lparr>EventName = event, Status = initialStatus, Meta = []\<rparr>
     in (rec, emit (AuditRecMade rec) c))"

text \<open>
  Modelled from the spec: \<^verbatim>\<open>Context.LogAuditRec\<close>, which is not among the sources. It
  emits the record as it stands when the deferred call runs.
\<close>

definition LogAuditRec :: "AuditRecord \<Rightarrow> Context \<Rightarrow> Context" where
  "LogAuditRec rec c = emit (AuditRecLogged rec) c"

text \<open>\<^verbatim>\<open>Context.LogAudit\<close>, the older audit line that \<^verbatim>\<open>patchScheme\<close> also writes.\<close>

definition LogAudit :: "string \<Rightarrow> Context \<Rightarrow> Context" where
  "LogAudit extraInfo c = emit (AuditLogged extraInfo) c"

text \<open>
  Writes to the \<^verbatim>\<open>http.ResponseWriter\<close>. A failure of the JSON encoder is only logged,
  so it changes nothing here.
\<close>

definition Encode :: "ResponseBody \<Rightarrow> Context \<Rightarrow> Context" where
  "Encode body c = emit (Written body) c"

definition WriteHeader :: "int \<Rightarrow> Context \<Rightarrow> Context" where
  "WriteHeader status c = emit (HeaderWritten status) c"

definition ReturnStatusOK :: "Context \<Rightarrow> Context" where
  "ReturnStatusOK c = emit (Written StatusOK) c"

section \<open>The handlers of preference.go\<close>

definition getPreferences :: "Context \<Rightarrow> Context" where
  "getPreferences c0 =
    (let c = RequireUserId c0 in
     if Err c \<noteq> None then c
     else
       let (ok, c) = askPermissionToUser (Params.UserId (Params c)) c in
       if \<not> ok then SetPermissionError PermissionEditOtherUsers c
       else
         let c = call (GetPreferencesForUser_call (Params.UserId (Params c))) c in
         case GetPreferencesForUser (App c) (Params.UserId (Params c)) of
           Inl err \<Rightarrow> set_Err err c
         | Inr preferences \<Rightarrow> Encode (PreferencesJson preferences) c)"

definition getPreferencesByCategory :: "Context \<Rightarrow> Context" where
  "getPreferencesByCategory c0 =
    (let c = RequireCategory (RequireUserId c0) in
     if Err c \<noteq> None then c
     else
       let (ok, c) = askPermissionToUser (Params.UserId (Params c)) c in
       if \<not> ok then SetPermissionError PermissionEditOtherUsers c
       else
         let c = call (GetPreferenceByCategoryForUser_call
                         (Params.UserId (Params c)) (Params.Category (Params c))) c in
         case GetPreferenceByCategoryForUser (App c)
                (Params.UserId (Params c)) (Params.Category (Params c)) of
           Inl err \<Rightarrow> set_Err err c
         | Inr preferences \<Rightarrow> Encode (PreferencesJson preferences) c)"

definition getPreferenceByCategoryAndName :: "Context \<Rightarrow> Context" where
  "getPreferenceByCategoryAndName c0 =
    (let c = RequirePreferenceName (RequireCategory (RequireUserId c0)) in
     if Err c \<noteq> None then c
     else
       let (ok, c) = askPermissionToUser (Params.UserId (Params c)) c in
       if \<not> ok then SetPermissionError PermissionEditOtherUsers c
       else
         let c = call (GetPreferenceByCategoryAndNameForUser_call
                         (Params.UserId (Params c)) (Params.Category (Params c))
                         (Params.PreferenceName (Params c))) c in
         case GetPreferenceByCategoryAndNameForUser (App c)
                (Params.UserId (Params c)) (Params.Category (Params c))
                (Params.PreferenceName (Params c)) of
           Inl err \<Rightarrow> set_Err err c
         | Inr preferences \<Rightarrow> Encode (PreferenceJson preferences) c)"

text \<open>
  The loop of \<^verbatim>\<open>updatePreferences\<close> over the decoded preferences, with the slice
  \<^verbatim>\<open>sanitizedPreferences\<close> as accumulator. \<open>None\<close> is a \<^verbatim>\<open>return\<close> from inside the
  loop, after the error slot was set.
\<close>

fun sanitize :: "Preferences \<Rightarrow> Preferences \<Rightarrow> Context \<Rightarrow> Preferences option \<times> Context" where
  "sanitize [] sanitizedPreferences c = (Some sanitizedPreferences, c)"
| "sanitize (pref # rest) sanitizedPreferences c =
    (if Preference.Category pref = PreferenceCategoryFlaggedPost then
       (let c = call (GetSinglePost_call (Name pref)) c in
        case GetSinglePost (App c) (Name pref) of
          Inl err \<Rightarrow> (None, SetInvalidParam ''preference.name'' c)
        | Inr post \<Rightarrow>
            let (ok, c) = askPermissionToChannel (ChannelId post) PermissionReadChannel c in
            if \<not> ok then (None, SetPermissionError PermissionReadChannel c)
            else sanitize rest (sanitizedPreferences @ [pref]) c)
     else sanitize rest (sanitizedPreferences @ [pref]) c)"

text \<open>
  The statements of \<^verbatim>\<open>updatePreferences\<close> after \<^verbatim>\<open>defer c.LogAuditRec(auditRec)\<close>; the
  deferred call runs on whatever record and context they leave.
\<close>

definition updatePreferences_deferred ::
  "Model \<Rightarrow> Request \<Rightarrow> AuditRecord \<Rightarrow> Context \<Rightarrow> AuditRecord \<times> Context" where
  "updatePreferences_deferred m r auditRec c0 =
    (let (ok, c) = askPermissionToUser (Params.UserId (Params c0)) c0 in
     if \<not> ok then (auditRec, SetPermissionError PermissionEditOtherUsers c)
     else
       case PreferencesFromJson m (Body r) of
         Inl err \<Rightarrow> (auditRec, SetInvalidParam ''preferences'' c)
       | Inr preferences \<Rightarrow>
           (case sanitize preferences [] c of
              (None, c) \<Rightarrow> (auditRec, c)
            | (Some sanitizedPreferences, c) \<Rightarrow>
                let c = call (UpdatePreferences_call
                                (Params.UserId (Params c)) sanitizedPreferences) c in
                (case UpdatePreferences (App c)
                        (Params.UserId (Params c)) sanitizedPreferences of
                   Some err \<Rightarrow> (auditRec, set_Err err c)
                 | None \<Rightarrow> (Success auditRec, ReturnStatusOK c))))"

definition updatePreferences :: "Model \<Rightarrow> Request \<Rightarrow> Context \<Rightarrow> Context" where
  "updatePreferences m r c0 =
    (let c = RequireUserId c0 in
     if Err c \<noteq> None then c
     else
       let (auditRec, c) = MakeAuditRecord ''updatePreferences'' audit_Fail c;
           (auditRec, c) = updatePreferences_deferred m r auditRec c
       in LogAuditRec auditRec c)"

definition deletePreferences_deferred ::
  "Model \<Rightarrow> Request \<Rightarrow> AuditRecord \<Rightarrow> Context \<Rightarrow> AuditRecord \<times> Context" where
  "deletePreferences_deferred m r auditRec c0 =
    (let (ok, c) = askPermissionToUser (Params.UserId (Params c0)) c0 in
     if \<not> ok then (auditRec, SetPermissionError PermissionEditOtherUsers c)
     else
       case PreferencesFromJson m (Body r) of
         Inl err \<Rightarrow> (auditRec, SetInvalidParam ''preferences'' c)
       | Inr preferences \<Rightarrow>
           let c = call (DeletePreferences_call (Params.UserId (Params c)) preferences) c in
           (case DeletePreferences (App c) (Params.UserId (Params c)) preferences of
              Some err \<Rightarrow> (auditRec, set_Err err c)
            | None \<Rightarrow> (Success auditRec, ReturnStatusOK c)))"

definition deletePreferences :: "Model \<Rightarrow> Request \<Rightarrow> Context \<Rightarrow> Context" where
  "deletePreferences m r c0 =
    (let c = RequireUserId c0 in
     if Err c \<noteq> None then c
     else
       let (auditRec, c) = MakeAuditRecord ''deletePreferences'' audit_Fail c;
           (auditRec, c) = deletePreferences_deferred m r auditRec c
       in LogAuditRec auditRec c)"

section \<open>The handlers of scheme.go\<close>

text \<open>
  The licence gate of the three mutating handlers:
  \<^verbatim>\<open>License() == nil || !*License().Features.CustomPermissionsSchemes\<close>.
\<close>

definition license_missing :: "App \<Rightarrow> bool" where
  "license_missing app =
    (case License app of
       None \<Rightarrow> True
     | Some license \<Rightarrow> \<not> CustomPermissionsSchemes (Features license))"

definition createScheme_deferred ::
  "Scheme \<Rightarrow> AuditRecord \<Rightarrow> Context \<Rightarrow> AuditRecord \<times> Context" where
  "createScheme_deferred scheme auditRec0 c0 =
    (let auditRec = AddMeta ''scheme'' (SchemeMeta scheme) auditRec0 in
     if license_missing (App c0) then
       (auditRec, set_Err (NewAppError ''Api4.CreateScheme''
                    ''api.scheme.create_scheme.license.error'' [] '''' StatusNotImplemented) c0)
     else
       let (ok, c) = askPermissionTo PermissionSysconsoleWriteUserManagementPermissions c0 in
       if \<not> ok then
         (auditRec, SetPermissionError PermissionSysconsoleWriteUserManagementPermissions c)
       else
         let c = call (CreateScheme_call scheme) c in
         case CreateScheme (App c) scheme of
           Inl err \<Rightarrow> (auditRec, set_Err err c)
         | Inr scheme \<Rightarrow>
             let auditRec = Success auditRec;
                 auditRec = AddMeta ''scheme'' (SchemeMeta scheme) auditRec;
                 c = WriteHeader StatusCreated c
             in (auditRec, Encode (SchemeJson scheme) c))"

definition createScheme :: "Model \<Rightarrow> Request \<Rightarrow> Context \<Rightarrow> Context" where
  "createScheme m r c0 =
    (case SchemeFromJson m (Body r) of
       None \<Rightarrow> SetInvalidParam ''scheme'' c0
     | Some scheme \<Rightarrow>
         let (auditRec, c) = MakeAuditRecord ''createScheme'' audit_Fail c0;
             (auditRec, c) = createScheme_deferred scheme auditRec c
         in LogAuditRec auditRec c)"

definition getScheme :: "Context \<Rightarrow> Context" where
  "getScheme c0 =
    (let c = RequireSchemeId c0 in
     if Err c \<noteq> None then c
     else
       let (ok, c) = askPermissionTo PermissionSysconsoleReadUserManagementPermissions c in
       if \<not> ok then SetPermissionError PermissionSysconsoleReadUserManagementPermissions c
       else
         let c = call (GetScheme_call (SchemeId (Params c))) c in
         case GetScheme (App c) (SchemeId (Params c)) of
           Inl err \<Rightarrow> set_Err err c
         | Inr scheme \<Rightarrow> Encode (SchemeJson scheme) c)"

definition getSchemes :: "Context \<Rightarrow> Context" where
  "getSchemes c0 =
    (let (ok, c) = askPermissionTo PermissionSysconsoleReadUserManagementPermissions c0 in
     if \<not> ok then SetPermissionError PermissionSysconsoleReadUserManagementPermissions c
     else
       let scope = Params.Scope (Params c) in
       if scope \<noteq> '''' \<and> scope \<noteq> SchemeScopeTeam \<and> scope \<noteq> SchemeScopeChannel
       then SetInvalidParam ''scope'' c
       else
         let c = call (GetSchemesPage_call
                         (Params.Scope (Params c)) (Page (Params c)) (PerPage (Params c))) c in
         case GetSchemesPage (App c)
                (Params.Scope (Params c)) (Page (Params c)) (PerPage (Params c)) of
           Inl err \<Rightarrow> set_Err err c
         | Inr schemes \<Rightarrow> Encode (SchemesJson schemes) c)"

definition getTeamsForScheme :: "Context \<Rightarrow> Context" where
  "getTeamsForScheme c0 =
    (let c = RequireSchemeId c0 in
     if Err c \<noteq> None then c
     else
       let (ok, c) = askPermissionTo PermissionSysconsoleReadUserManagementTeams c in
       if \<not> ok then SetPermissionError PermissionSysconsoleReadUserManagementTeams c
       else
         let c = call (GetScheme_call (SchemeId (Params c))) c in
         case GetScheme (App c) (SchemeId (Params c)) of
           Inl err \<Rightarrow> set_Err err c
         | Inr scheme \<Rightarrow>
             if Scheme.Scope scheme \<noteq> SchemeScopeTeam then
               set_Err (NewAppError ''Api4.GetTeamsForScheme''
                 ''api.scheme.get_teams_for_scheme.scope.error'' [] '''' StatusBadRequest) c
             else
               let c = call (GetTeamsForSchemePage_call
                               scheme (Page (Params c)) (PerPage (Params c))) c in
               (case GetTeamsForSchemePage (App c)
                       scheme (Page (Params c)) (PerPage (Params c)) of
                  Inl err \<Rightarrow> set_Err err c
                | Inr teams \<Rightarrow> Encode (TeamListJson teams) c))"

definition getChannelsForScheme :: "Context \<Rightarrow> Context" where
  "getChannelsForScheme c0 =
    (let c = RequireSchemeId c0 in
     if Err c \<noteq> None then c
     else
       let (ok, c) = askPermissionTo PermissionSysconsoleReadUserManagementChannels c in
       if \<not> ok then SetPermissionError PermissionSysconsoleReadUserManagementChannels c
       else
         let c = call (GetScheme_call (SchemeId (Params c))) c in
         case GetScheme (App c) (SchemeId (Params c)) of
           Inl err \<Rightarrow> set_Err err c
         | Inr scheme \<Rightarrow>
             if Scheme.Scope scheme \<noteq> SchemeScopeChannel then
               set_Err (NewAppError ''Api4.GetChannelsForScheme''
                 ''api.scheme.get_channels_for_scheme.scope.error'' [] '''' StatusBadRequest) c
             else
               let c = call (GetChannelsForSchemePage_call
                               scheme (Page (Params c)) (PerPage (Params c))) c in
               (case GetChannelsForSchemePage (App c)
                       scheme (Page (Params c)) (PerPage (Params c)) of
                  Inl err \<Rightarrow> set_Err err c
                | Inr channels \<Rightarrow> Encode (ChannelListJson channels) c))"

definition patchScheme_deferred ::
  "SchemePatch \<Rightarrow> AuditRecord \<Rightarrow> Context \<Rightarrow> AuditRecord \<times> Context" where
  "patchScheme_deferred patch auditRec c0 =
    (if license_missing (App c0) then
       (auditRec, set_Err (NewAppError ''Api4.PatchScheme''
                    ''api.scheme.patch_scheme.license.error'' [] '''' StatusNotImplemented) c0)
     else
       let c = call (GetScheme_call (SchemeId (Params c0))) c0 in
       case GetScheme (App c) (SchemeId (Params c)) of
         Inl err \<Rightarrow> (auditRec, set_Err err c)
       | Inr scheme \<Rightarrow>
           let auditRec = AddMeta ''scheme'' (SchemeMeta scheme) auditRec;
               (ok, c) = askPermissionTo PermissionSysconsoleWriteUserManagementPermissions c in
           if \<not> ok then
             (auditRec, SetPermissionError PermissionSysconsoleWriteUserManagementPermissions c)
           else
             let c = call (PatchScheme_call scheme patch) c in
             (case PatchScheme (App c) scheme patch of
                Inl err \<Rightarrow> (auditRec, set_Err err c)
              | Inr scheme \<Rightarrow>
                  let auditRec = AddMeta ''patch'' (SchemeMeta scheme) auditRec;
                      auditRec = Success auditRec;
                      c = LogAudit '''' c
                  in (auditRec, Encode (SchemeJson scheme) c)))"

definition patchScheme :: "Model \<Rightarrow> Request \<Rightarrow> Context \<Rightarrow> Context" where
  "patchScheme m r c0 =
    (let c = RequireSchemeId c0 in
     if Err c \<noteq> None then c
     else
       case SchemePatchFromJson m (Body r) of
         None \<Rightarrow> SetInvalidParam ''scheme'' c
       | Some patch \<Rightarrow>
           let (auditRec, c) = MakeAuditRecord ''patchScheme'' audit_Fail c;
               (auditRec, c) = patchScheme_deferred patch auditRec c
           in LogAuditRec auditRec c)"

definition deleteScheme_deferred :: "AuditRecord \<Rightarrow> Context \<Rightarrow> AuditRecord \<times> Context" where
  "deleteScheme_deferred auditRec c0 =
    (if license_missing (App c0) then
       (auditRec, set_Err (NewAppError ''Api4.DeleteScheme''
                    ''api.scheme.delete_scheme.license.error'' [] '''' StatusNotImplemented) c0)
     else
       let (ok, c) = askPermissionTo PermissionSysconsoleWriteUserManagementPermissions c0 in
       if \<not> ok then
         (auditRec, SetPermissionError PermissionSysconsoleWriteUserManagementPermissions c)
       else
         let c = call (DeleteScheme_call (SchemeId (Params c))) c in
         case DeleteScheme (App c) (SchemeId (Params c)) of
           Inl err \<Rightarrow> (auditRec, set_Err err c)
         | Inr scheme \<Rightarrow>
             let auditRec = Success auditRec;
                 auditRec = AddMeta ''scheme'' (SchemeMeta scheme) auditRec
             in (auditRec, ReturnStatusOK c))"

definition deleteScheme :: "Context \<Rightarrow> Context" where
  "deleteScheme c0 =
    (let c = RequireSchemeId c0 in
     if Err c \<noteq> None then c
     else
       let (auditRec, c) = MakeAuditRecord ''deleteScheme'' audit_Fail c;
           (auditRec, c) = deleteScheme_deferred auditRec c
       in LogAuditRec auditRec c)"

section \<open>Routes\<close>

text \<open>
  The route tables of \<^verbatim>\<open>InitPreference\<close> and \<^verbatim>\<open>InitScheme\<close>: one route per handler,
  named by its method and path.
\<close>

datatype Route =
    GET_preferences
  | PUT_preferences
  | POST_preferences_delete
  | GET_preferences_category
  | GET_preferences_category_name
  | GET_schemes
  | POST_schemes
  | DELETE_scheme
  | GET_scheme
  | PUT_scheme_patch
  | GET_scheme_teams
  | GET_scheme_channels

fun handle :: "Route \<Rightarrow> Model \<Rightarrow> Request \<Rightarrow> Context \<Rightarrow> Context" where
  "handle GET_preferences m r c = getPreferences c"
| "handle PUT_preferences m r c = updatePreferences m r c"
| "handle POST_preferences_delete m r c = deletePreferences m r c"
| "handle GET_preferences_category m r c = getPreferencesByCategory c"
| "handle GET_preferences_category_name m r c = getPreferenceByCategoryAndName c"
| "handle GET_schemes m r c = getSchemes c"
| "handle POST_schemes m r c = createScheme m r c"
| "handle DELETE_scheme m r c = deleteScheme c"
| "handle GET_scheme m r c = getScheme c"
| "handle PUT_scheme_patch m r c = patchScheme m r c"
| "handle GET_scheme_teams m r c = getTeamsForScheme c"
| "handle GET_scheme_channels m r c = getChannelsForScheme c"

text \<open>
  The required parameters of each handler, in the order of its chain of
  \<^verbatim>\<open>Require\<close> calls, each with the identifier its check reports.
\<close>

fun required :: "Route \<Rightarrow> (string \<times> (Params \<Rightarrow> string)) list" where
  "required GET_preferences = [(''UserId'', Params.UserId)]"
| "required PUT_preferences = [(''UserId'', Params.UserId)]"
| "required POST_preferences_delete = [(''UserId'', Params.UserId)]"
| "required GET_preferences_category =
     [(''UserId'', Params.UserId), (''Category'', Params.Category)]"
| "required GET_preferences_category_name =
     [(''UserId'', Params.UserId), (''Category'', Params.Category),
      (''PreferenceName'', Params.PreferenceName)]"
| "required GET_schemes = []"
| "required POST_schemes = []"
| "required DELETE_scheme = [(''SchemeId'', Params.SchemeId)]"
| "required GET_scheme = [(''SchemeId'', Params.SchemeId)]"
| "required PUT_scheme_patch = [(''SchemeId'', Params.SchemeId)]"
| "required GET_scheme_teams = [(''SchemeId'', Params.SchemeId)]"
| "required GET_scheme_channels = [(''SchemeId'', Params.SchemeId)]"

text \<open>The first required parameter that is absent, if any.\<close>

definition first_missing :: "Route \<Rightarrow> Params \<Rightarrow> string option" where
  "first_missing route params =
     map_option fst (find (\<lambda>(name, field). field params = []) (required route))"

text \<open>The handlers that make an audit record.\<close>

fun audits :: "Route \<Rightarrow> bool" where
  "audits PUT_preferences = True"
| "audits POST_preferences_delete = True"
| "audits POST_schemes = True"
| "audits DELETE_scheme = True"
| "audits PUT_scheme_patch = True"
| "audits route = False"

text \<open>
  The checks a handler makes before its first gate (and, in a handler that audits,
  before it makes the audit record): the required parameters and the decoding of the
  scheme or of the patch.
\<close>

fun body_decodes :: "Route \<Rightarrow> Model \<Rightarrow> Request \<Rightarrow> bool" where
  "body_decodes POST_schemes m r = (SchemeFromJson m (Body r) \<noteq> None)"
| "body_decodes PUT_scheme_patch m r = (SchemePatchFromJson m (Body r) \<noteq> None)"
| "body_decodes route m r = True"

definition validated :: "Route \<Rightarrow> Model \<Rightarrow> Request \<Rightarrow> Params \<Rightarrow> bool" where
  "validated route m r params =
     (first_missing route params = None \<and> body_decodes route m r)"

fun license_gated :: "Route \<Rightarrow> bool" where
  "license_gated POST_schemes = True"
| "license_gated PUT_scheme_patch = True"
| "license_gated DELETE_scheme = True"
| "license_gated route = False"

section \<open>Reading the trace\<close>

fun facade_call_of :: "Event \<Rightarrow> FacadeCall list" where
  "facade_call_of (Called k) = [k]"
| "facade_call_of e = []"

definition facade_calls :: "Event list \<Rightarrow> FacadeCall list" where
  "facade_calls es = concat (map facade_call_of es)"

fun query_of :: "Event \<Rightarrow> (PermissionQuery \<times> bool) list" where
  "query_of (Queried q ok) = [(q, ok)]"
| "query_of e = []"

definition queries :: "Event list \<Rightarrow> (PermissionQuery \<times> bool) list" where
  "queries es = concat (map query_of es)"

fun error_set_of :: "Event \<Rightarrow> AppError list" where
  "error_set_of (ErrSet err) = [err]"
| "error_set_of e = []"

definition errors_set :: "Event list \<Rightarrow> AppError list" where
  "errors_set es = concat (map error_set_of es)"

fun audit_made_of :: "Event \<Rightarrow> AuditRecord list" where
  "audit_made_of (AuditRecMade rec) = [rec]"
| "audit_made_of e = []"

definition audit_made :: "Event list \<Rightarrow> AuditRecord list" where
  "audit_made es = concat (map audit_made_of es)"

fun audit_logged_of :: "Event \<Rightarrow> AuditRecord list" where
  "audit_logged_of (AuditRecLogged rec) = [rec]"
| "audit_logged_of e = []"

definition audit_logged :: "Event list \<Rightarrow> AuditRecord list" where
  "audit_logged es = concat (map audit_logged_of es)"

fun is_denial :: "Event \<Rightarrow> bool" where
  "is_denial (Queried q ok) = (\<not> ok)"
| "is_denial e = False"

definition before_denial :: "Event list \<Rightarrow> Event list" where
  "before_denial es = takeWhile (\<lambda>e. \<not> is_denial e) es"

definition after_denial :: "Event list \<Rightarrow> Event list" where
  "after_denial es = drop 1 (dropWhile (\<lambda>e. \<not> is_denial e) es)"

fun is_ErrSet :: "Event \<Rightarrow> bool" where
  "is_ErrSet (ErrSet err) = True"
| "is_ErrSet e = False"

fun is_AuditRecLogged :: "Event \<Rightarrow> bool" where
  "is_AuditRecLogged (AuditRecLogged rec) = True"
| "is_AuditRecLogged e = False"

definition after_first_error :: "Event list \<Rightarrow> Event list" where
  "after_first_error es = drop 1 (dropWhile (\<lambda>e. \<not> is_ErrSet e) es)"

fun is_GetSinglePost_call :: "FacadeCall \<Rightarrow> bool" where
  "is_GetSinglePost_call (GetSinglePost_call postId) = True"
| "is_GetSinglePost_call k = False"

fun is_UpdatePreferences_call :: "FacadeCall \<Rightarrow> bool" where
  "is_UpdatePreferences_call (UpdatePreferences_call userId preferences) = True"
| "is_UpdatePreferences_call k = False"

text \<open>The error, if any, that the facade returns for a call.\<close>

definition error_of :: "AppError + 'a \<Rightarrow> AppError option" where
  "error_of res = (case res of Inl err \<Rightarrow> Some err | Inr x \<Rightarrow> None)"

fun facade_error :: "App \<Rightarrow> FacadeCall \<Rightarrow> AppError option" where
  "facade_error app (CreateScheme_call scheme) = error_of (CreateScheme app scheme)"
| "facade_error app (GetScheme_call schemeId) = error_of (GetScheme app schemeId)"
| "facade_error app (PatchScheme_call scheme patch) = error_of (PatchScheme app scheme patch)"
| "facade_error app (DeleteScheme_call schemeId) = error_of (DeleteScheme app schemeId)"
| "facade_error app (GetSchemesPage_call scope page perPage) =
     error_of (GetSchemesPage app scope page perPage)"
| "facade_error app (GetTeamsForSchemePage_call scheme page perPage) =
     error_of (GetTeamsForSchemePage app scheme page perPage)"
| "facade_error app (GetChannelsForSchemePage_call scheme page perPage) =
     error_of (GetChannelsForSchemePage app scheme page perPage)"
| "facade_error app (GetPreferencesForUser_call userId) =
     error_of (GetPreferencesForUser app userId)"
| "facade_error app (GetPreferenceByCategoryForUser_call userId category) =
     error_of (GetPreferenceByCategoryForUser app userId category)"
| "facade_error app (GetPreferenceByCategoryAndNameForUser_call userId category name) =
     error_of (GetPreferenceByCategoryAndNameForUser app userId category name)"
| "facade_error app (UpdatePreferences_call userId preferences) =
     UpdatePreferences app userId preferences"
| "facade_error app (DeletePreferences_call userId preferences) =
     DeletePreferences app userId preferences"
| "facade_error app (GetSinglePost_call postId) = error_of (GetSinglePost app postId)"

section \<open>Concrete requests\<close>

text \<open>
  A small deployment on which the theorems below are run: two schemes, three posts, a
  licence with custom permission schemes, an administrator and a plain user.
\<close>

definition not_found :: AppError where
  "not_found = NewAppError ''SqlStore.Get'' ''store.not_found.app_error'' [] '''' 404"

definition store_down :: AppError where
  "store_down = NewAppError ''SqlStore.Save'' ''store.unavailable.app_error'' [] '''' 500"

definition team_scheme :: Scheme where
  "team_scheme = \<lparr>DisplayName = ''Team scheme'', Scope = SchemeScopeTeam\<rparr>"

definition channel_scheme :: Scheme where
  "channel_scheme = \<lparr>DisplayName = ''Channel scheme'', Scope = SchemeScopeChannel\<rparr>"

definition saved_scheme :: Scheme where
  "saved_scheme = \<lparr>DisplayName = ''Team scheme (saved)'', Scope = SchemeScopeTeam\<rparr>"

definition demo_app :: App where
  "demo_app =
    \<lparr>License = Some \<lparr>Features = \<lparr>CustomPermissionsSchemes = True\<rparr>\<rparr>,
     SessionHasPermissionTo = (\<lambda>session permission. Roles session = ''system_admin''),
     SessionHasPermissionToUser =
       (\<lambda>session userId. Roles session = ''system_admin'' \<or> Token session = userId),
     SessionHasPermissionToChannel =
       (\<lambda>session channelId permission. channelId = ''town-square''),
     CreateScheme = (\<lambda>scheme. Inr saved_scheme),
     GetScheme = (\<lambda>schemeId.
        if schemeId = ''scheme1'' then Inr team_scheme
        else if schemeId = ''scheme2'' then Inr channel_scheme
        else Inl not_found),
     PatchScheme = (\<lambda>scheme patch. Inr scheme),
     DeleteScheme = (\<lambda>schemeId. Inr team_scheme),
     GetSchemesPage = (\<lambda>scope page perPage. Inr [team_scheme, channel_scheme]),
     GetTeamsForSchemePage = (\<lambda>scheme page perPage.
        if page = 0 then Inr [Team ''team1''] else Inl store_down),
     GetChannelsForSchemePage = (\<lambda>scheme page perPage. Inr [Channel ''channel1'']),
     GetPreferencesForUser = (\<lambda>userId. Inr []),
     GetPreferenceByCategoryForUser = (\<lambda>userId category. Inr []),
     GetPreferenceByCategoryAndNameForUser = (\<lambda>userId category name. Inl not_found),
     UpdatePreferences = (\<lambda>userId preferences. None),
     DeletePreferences = (\<lambda>userId preferences. None),
     GetSinglePost = (\<lambda>postId.
        if postId = ''post1'' then Inr \<lparr>ChannelId = ''town-square'', Message = ''hello''\<rparr>
        else if postId = ''post2'' then Inr \<lparr>ChannelId = ''private'', Message = ''psst''\<rparr>
        else Inl not_found)\<rparr>"

definition unlicensed_app :: App where
  "unlicensed_app = demo_app\<lparr>License := None\<rparr>"

definition theme_pref :: Preference where
  "theme_pref = \<lparr>Category = ''theme'', Name = ''dark'', Value = ''on''\<rparr>"

definition flag_post1 :: Preference where
  "flag_post1 = \<lparr>Category = PreferenceCategoryFlaggedPost, Name = ''post1'', Value = ''true''\<rparr>"

definition flag_post2 :: Preference where
  "flag_post2 = \<lparr>Category = PreferenceCategoryFlaggedPost, Name = ''post2'', Value = ''true''\<rparr>"

definition flag_post3 :: Preference where
  "flag_post3 = \<lparr>Category = PreferenceCategoryFlaggedPost, Name = ''post3'', Value = ''true''\<rparr>"

definition demo_model :: Model where
  "demo_model =
    \<lparr>SchemeFromJson = (\<lambda>body. if body = ''scheme'' then Some team_scheme else None),
     SchemePatchFromJson =
       (\<lambda>body. if body = ''patch'' then Some \<lparr>Description = ''new''\<rparr> else None),
     PreferencesFromJson = (\<lambda>body.
        if body = ''flag unreadable'' then Inr [theme_pref, flag_post2]
        else if body = ''flag missing first'' then Inr [flag_post3, flag_post2]
        else if body = ''flag readable'' then Inr [theme_pref, flag_post1]
        else Inl ''unexpected end of JSON input'')\<rparr>"

definition admin :: Session where
  "admin = \<lparr>Token = ''root'', Roles = ''system_admin''\<rparr>"

definition user1 :: Session where
  "user1 = \<lparr>Token = ''user1'', Roles = ''system_user''\<rparr>"

definition no_params :: Params where
  "no_params = \<lparr>UserId = '''', SchemeId = '''', Category = '''', PreferenceName = '''',
                 Scope = '''', Page = 0, PerPage = 60\<rparr>"

section \<open>Theorems about the password checks\<close>

lemma ContainsAny_iff: "ContainsAny s chars \<longleftrightarrow> (\<exists>c\<in>set s. c \<in> set chars)"
  by (simp add: ContainsAny_def list_ex_iff)

text \<open>
  C1: the result of \<^verbatim>\<open>CheckUserPassword\<close> does not depend on the stored password hash:
  two user records with the same Username get the same result for every candidate
  password. The password is valid exactly when \<^verbatim>\<open>ValidateIAM\<close> accepts, which posts
  the marshalled username and plaintext password to the IAM endpoint and accepts exactly
  when a response arrives with status 200.
\<close>

theorem CheckUserPassword_independent_of_hash:
  "(Username u1 = Username u2 \<longrightarrow>
      CheckUserPassword net u1 password = CheckUserPassword net u2 password)
   \<and> (CheckUserPassword net u password = Inr () \<longleftrightarrow> ValidateIAM net (Username u) password)
   \<and> (ValidateIAM net username password \<longleftrightarrow>
        (\<exists>resp. http_Post net ''https://iam.pajak.or.id/api/authentication'' ''application/json''
                   (json_Marshal net [(''username'', username), (''password'', password)])
                 = Inr resp
               \<and> StatusCode resp = 200))"
  by (auto simp: CheckUserPassword_def ValidateIAM_def split: sum.splits)

theorem CheckUserPassword_independent_of_hash_witness:
  "Username \<lparr>Username = ''alice'', Password = ''hash-one''\<rparr>
     = Username \<lparr>Username = ''alice'', Password = ''hash-two''\<rparr>
   \<and> CheckUserPassword iam_net \<lparr>Username = ''alice'', Password = ''hash-one''\<rparr> ''secret''
     = CheckUserPassword iam_net \<lparr>Username = ''alice'', Password = ''hash-two''\<rparr> ''secret''
   \<and> CheckUserPassword iam_net \<lparr>Username = ''alice'', Password = ''hash-one''\<rparr> ''secret''
     = Inr ()"
proof -
  have accepted: "ValidateIAM iam_net ''alice'' ''secret''"
    by (simp add: iam_net_def ValidateIAM_def)
  show ?thesis
    using accepted CheckUserPassword_independent_of_hash
      [where ?u1.0 = "\<lparr>Username = ''alice'', Password = ''hash-one''\<rparr>"
         and ?u2.0 = "\<lparr>Username = ''alice'', Password = ''hash-two''\<rparr>"
         and net = iam_net and password = "''secret''"
         and u = "\<lparr>Username = ''alice'', Password = ''hash-one''\<rparr>"
         and username = "''alice''"]
    by auto
qed

text \<open>
  C10: \<^verbatim>\<open>IsPasswordValidWithSettings\<close> returns nil exactly when the length of the
  password lies between the minimum length of the settings and the maximum password
  length and, for each enabled character class, the password holds a character of that
  class. When it returns an error, the id of the error carries the suffix of every
  enabled class, whichever checks failed.
\<close>

theorem IsPasswordValidWithSettings_spec:
  "(IsPasswordValidWithSettings m password settings = Inr () \<longleftrightarrow>
      MinimumLength settings \<le> int (length password)
      \<and> int (length password) \<le> PasswordMaximumLength m
      \<and> (Lowercase settings \<longrightarrow> (\<exists>c\<in>set password. c \<in> set (LowercaseLetters m)))
      \<and> (Uppercase settings \<longrightarrow> (\<exists>c\<in>set password. c \<in> set (UppercaseLetters m)))
      \<and> (Number settings \<longrightarrow> (\<exists>c\<in>set password. c \<in> set (NUMBERS m)))
      \<and> (Symbol settings \<longrightarrow> (\<exists>c\<in>set password. c \<in> set (SYMBOLS m))))
   \<and> (IsPasswordValidWithSettings m password settings \<noteq> Inr () \<longrightarrow>
        IsPasswordValidWithSettings m password settings
          = Inl (NewErrInvalidPassword (password_error_id settings)))"
  unfolding IsPasswordValidWithSettings_def password_error_id_def ContainsAny_iff Let_def
  by (cases "Lowercase settings"; cases "Uppercase settings"; cases "Number settings";
      cases "Symbol settings") (simp_all add: not_less)

theorem IsPasswordValidWithSettings_spec_witness:
  "IsPasswordValidWithSettings ascii_constants ''abc12'' strict_settings = Inr ()
   \<and> IsPasswordValidWithSettings ascii_constants ''abcde'' strict_settings
     = Inl (NewErrInvalidPassword ''model.user.is_valid.pwd_lowercase_number.app_error'')"
  using IsPasswordValidWithSettings_spec [of ascii_constants "''abc12''" strict_settings]
        IsPasswordValidWithSettings_spec [of ascii_constants "''abcde''" strict_settings]
  by (simp add: ascii_constants_def strict_settings_def password_error_id_def)

section \<open>Lemmas about the handlers\<close>

lemmas ctx_defs = NewContext_def emit_def set_Err_def call_def askPermissionTo_def
  askPermissionToUser_def askPermissionToChannel_def SetInvalidParam_def SetPermissionError_def
  RequireUserId_def RequireSchemeId_def RequireCategory_def RequirePreferenceName_def
  MakeAuditRecord_def LogAuditRec_def LogAudit_def Encode_def WriteHeader_def ReturnStatusOK_def
  AddMeta_def Success_def

lemmas simple_handler_defs = getPreferences_def getPreferencesByCategory_def
  getPreferenceByCategoryAndName_def deletePreferences_def deletePreferences_deferred_def
  createScheme_def createScheme_deferred_def getScheme_def getSchemes_def getTeamsForScheme_def
  getChannelsForScheme_def patchScheme_def patchScheme_deferred_def deleteScheme_def
  deleteScheme_deferred_def

lemmas obs_defs = facade_calls_def queries_def errors_set_def audit_made_def audit_logged_def
  before_denial_def after_denial_def after_first_error_def

lemma sanitize_frame:
  "sanitize ps acc c = (res, c') \<Longrightarrow>
     App c' = App c \<and> Params c' = Params c \<and> Session c' = Session c"
  by (induction ps arbitrary: acc c)
     (auto simp: ctx_defs Let_def split: sum.splits if_splits)

lemma sanitize_ok:
  "sanitize ps acc c = (Some san, c') \<Longrightarrow>
     san = acc @ ps \<and> Err c' = Err c \<and>
     (\<exists>es. Trace c' = Trace c @ es \<and> errors_set es = [] \<and> audit_made es = []
        \<and> audit_logged es = [] \<and> \<not> list_ex is_denial es
        \<and> list_all is_GetSinglePost_call (facade_calls es)
        \<and> (\<forall>k\<in>set (facade_calls es). facade_error (App c) k = None))"
proof (induction ps arbitrary: acc c)
  case Nil
  then show ?case by (simp add: obs_defs)
next
  case (Cons pref rest)
  show ?case
  proof (cases "Preference.Category pref = PreferenceCategoryFlaggedPost")
    case False
    with Cons.prems have "sanitize rest (acc @ [pref]) c = (Some san, c')" by simp
    from Cons.IH [OF this] show ?thesis by simp
  next
    case True
    let ?c1 = "call (GetSinglePost_call (Name pref)) c"
    from True Cons.prems obtain post where
      post: "GetSinglePost (App c) (Name pref) = Inr post"
      by (auto simp: ctx_defs Let_def split: sum.splits if_splits)
    let ?c2 = "snd (askPermissionToChannel (ChannelId post) PermissionReadChannel ?c1)"
    from True Cons.prems post have
      ok: "SessionHasPermissionToChannel (App c) (Session c) (ChannelId post) PermissionReadChannel"
      and rec: "sanitize rest (acc @ [pref]) ?c2 = (Some san, c')"
      by (auto simp: ctx_defs Let_def split: sum.splits if_splits)
    from Cons.IH [OF rec] obtain es where
      es: "san = (acc @ [pref]) @ rest" "Err c' = Err ?c2" "Trace c' = Trace ?c2 @ es"
          "errors_set es = []" "audit_made es = []" "audit_logged es = []"
          "\<not> list_ex is_denial es" "list_all is_GetSinglePost_call (facade_calls es)"
          "\<forall>k\<in>set (facade_calls es). facade_error (App ?c2) k = None"
      by blast
    let ?es = "[Called (GetSinglePost_call (Name pref)),
                Queried (PermissionToChannel (Session c) (ChannelId post) PermissionReadChannel) True] @ es"
    have "Trace c' = Trace c @ ?es"
      using es(3) ok by (simp add: ctx_defs Let_def)
    moreover have "errors_set ?es = []" "audit_made ?es = []" "audit_logged ?es = []"
      "\<not> list_ex is_denial ?es" "list_all is_GetSinglePost_call (facade_calls ?es)"
      using es by (simp_all add: obs_defs)
    moreover have "\<forall>k\<in>set (facade_calls ?es). facade_error (App c) k = None"
      using es(9) post by (auto simp: obs_defs ctx_defs Let_def error_of_def)
    moreover have "san = acc @ pref # rest" "Err c' = Err c"
      using es(1,2) by (simp_all add: ctx_defs Let_def)
    ultimately show ?thesis by blast
  qed
qed


lemma sanitize_stop:
  "sanitize ps acc c = (None, c') \<Longrightarrow>
     \<exists>pre e. Trace c' = Trace c @ pre @ [ErrSet e] \<and> Err c' = Some e
       \<and> errors_set pre = [] \<and> audit_made pre = [] \<and> audit_logged pre = []
       \<and> list_all is_GetSinglePost_call (facade_calls pre)
       \<and> ((e = InvalidParamError ''preference.name'' \<and> \<not> list_ex is_denial pre)
          \<or> (e = PermissionError PermissionReadChannel
              \<and> (\<exists>pre' q. pre = pre' @ [Queried q False] \<and> \<not> list_ex is_denial pre'
                    \<and> (\<forall>k\<in>set (facade_calls pre'). facade_error (App c) k = None))))"
proof (induction ps arbitrary: acc c)
  case Nil
  then show ?case by simp
next
  case (Cons pref rest)
  show ?case
  proof (cases "Preference.Category pref = PreferenceCategoryFlaggedPost")
    case False
    with Cons.prems have "sanitize rest (acc @ [pref]) c = (None, c')" by simp
    from Cons.IH [OF this] show ?thesis by simp
  next
    case True
    let ?called = "Called (GetSinglePost_call (Name pref))"
    let ?c1 = "call (GetSinglePost_call (Name pref)) c"
    show ?thesis
    proof (cases "GetSinglePost (App c) (Name pref)")
      case (Inl err)
      with True Cons.prems have
        c': "c' = SetInvalidParam ''preference.name'' ?c1"
        by (simp add: ctx_defs Let_def)
      have "Trace c' = Trace c @ [?called] @ [ErrSet (InvalidParamError ''preference.name'')]"
        "Err c' = Some (InvalidParamError ''preference.name'')"
        by (simp_all add: c' ctx_defs)
      moreover have "errors_set [?called] = []" "audit_made [?called] = []"
        "audit_logged [?called] = []" "list_all is_GetSinglePost_call (facade_calls [?called])"
        "\<not> list_ex is_denial [?called]"
        by (simp_all add: obs_defs)
      ultimately show ?thesis by blast
    next
      case (Inr post)
      let ?q = "PermissionToChannel (Session c) (ChannelId post) PermissionReadChannel"
      let ?c2 = "snd (askPermissionToChannel (ChannelId post) PermissionReadChannel ?c1)"
      show ?thesis
      proof (cases "SessionHasPermissionToChannel (App c) (Session c) (ChannelId post)
                      PermissionReadChannel")
        case False
        with True Inr Cons.prems have
          c': "c' = SetPermissionError PermissionReadChannel ?c2"
          by (simp add: ctx_defs Let_def)
        have "Trace c' = Trace c @ ([?called] @ [Queried ?q False])
                @ [ErrSet (PermissionError PermissionReadChannel)]"
          "Err c' = Some (PermissionError PermissionReadChannel)"
          using False by (simp_all add: c' ctx_defs Let_def)
        moreover have "errors_set ([?called] @ [Queried ?q False]) = []"
          "audit_made ([?called] @ [Queried ?q False]) = []"
          "audit_logged ([?called] @ [Queried ?q False]) = []"
          "list_all is_GetSinglePost_call (facade_calls ([?called] @ [Queried ?q False]))"
          "\<not> list_ex is_denial [?called]"
          "\<forall>k\<in>set (facade_calls [?called]). facade_error (App c) k = None"
          using Inr by (simp_all add: obs_defs error_of_def)
        ultimately show ?thesis by blast
      next
        case ok: True
        with True Inr Cons.prems have
          rec: "sanitize rest (acc @ [pref]) ?c2 = (None, c')"
          by (simp add: ctx_defs Let_def)
        from Cons.IH [OF rec] obtain pre e where
          pre: "Trace c' = Trace ?c2 @ pre @ [ErrSet e]" "Err c' = Some e"
            "errors_set pre = []" "audit_made pre = []" "audit_logged pre = []"
            "list_all is_GetSinglePost_call (facade_calls pre)"
            "(e = InvalidParamError ''preference.name'' \<and> \<not> list_ex is_denial pre)
             \<or> (e = PermissionError PermissionReadChannel
                 \<and> (\<exists>pre' q. pre = pre' @ [Queried q False] \<and> \<not> list_ex is_denial pre'
                    \<and> (\<forall>k\<in>set (facade_calls pre'). facade_error (App ?c2) k = None)))"
          by blast
        let ?pre = "[?called, Queried ?q True] @ pre"
        have "Trace c' = Trace c @ ?pre @ [ErrSet e]"
          using pre(1) ok by (simp add: ctx_defs Let_def)
        moreover have "errors_set ?pre = []" "audit_made ?pre = []" "audit_logged ?pre = []"
          "list_all is_GetSinglePost_call (facade_calls ?pre)"
          using pre by (simp_all add: obs_defs)
        moreover have "(e = InvalidParamError ''preference.name'' \<and> \<not> list_ex is_denial ?pre)
             \<or> (e = PermissionError PermissionReadChannel
                 \<and> (\<exists>pre' q. ?pre = pre' @ [Queried q False] \<and> \<not> list_ex is_denial pre'
                    \<and> (\<forall>k\<in>set (facade_calls pre'). facade_error (App c) k = None)))"
        proof (cases "e = InvalidParamError ''preference.name''")
          case True
          with pre(7) show ?thesis by auto
        next
          case False
          with pre(7) obtain pre' q where
            p: "e = PermissionError PermissionReadChannel" "pre = pre' @ [Queried q False]"
               "\<not> list_ex is_denial pre'"
               "\<forall>k\<in>set (facade_calls pre'). facade_error (App ?c2) k = None"
            by blast
          have "?pre = ([?called, Queried ?q True] @ pre') @ [Queried q False]"
            using p(2) by simp
          moreover have "\<not> list_ex is_denial ([?called, Queried ?q True] @ pre')"
            using p(3) by simp
          moreover have "\<forall>k\<in>set (facade_calls ([?called, Queried ?q True] @ pre')).
                           facade_error (App c) k = None"
            using p(4) Inr by (auto simp: obs_defs ctx_defs Let_def error_of_def)
          ultimately show ?thesis using p(1) by blast
        qed
        ultimately show ?thesis using pre(2) by blast
      qed
    qed
  qed
qed


lemma updatePreferences_outcome:
  fixes app params session m r
  defines "c' \<equiv> updatePreferences m r (NewContext app params session)"
  defines "rec0 \<equiv> \<lparr>EventName = ''updatePreferences'', Status = audit_Fail, Meta = []\<rparr>"
  defines "uid \<equiv> Params.UserId params"
  defines "asked \<equiv> Queried (PermissionToUser session uid)"
  shows
   "(uid = [] \<and> Err c' = Some (InvalidParamError ''UserId'')
       \<and> Trace c' = [ErrSet (InvalidParamError ''UserId'')])
    \<or> (uid \<noteq> [] \<and> \<not> SessionHasPermissionToUser app session uid
       \<and> Err c' = Some (PermissionError PermissionEditOtherUsers)
       \<and> Trace c' = [AuditRecMade rec0, asked False,
                      ErrSet (PermissionError PermissionEditOtherUsers), AuditRecLogged rec0])
    \<or> (uid \<noteq> [] \<and> SessionHasPermissionToUser app session uid
       \<and> (\<exists>err. PreferencesFromJson m (Body r) = Inl err)
       \<and> Err c' = Some (InvalidParamError ''preferences'')
       \<and> Trace c' = [AuditRecMade rec0, asked True,
                      ErrSet (InvalidParamError ''preferences''), AuditRecLogged rec0])
    \<or> (uid \<noteq> [] \<and> SessionHasPermissionToUser app session uid
       \<and> (\<exists>prefs c2 c3 pre e. PreferencesFromJson m (Body r) = Inr prefs
            \<and> App c2 = app \<and> Session c2 = session \<and> sanitize prefs [] c2 = (None, c3)
            \<and> Err c' = Some e
            \<and> Trace c' = [AuditRecMade rec0, asked True] @ pre @ [ErrSet e, AuditRecLogged rec0]
            \<and> errors_set pre = [] \<and> audit_made pre = [] \<and> audit_logged pre = []
            \<and> list_all is_GetSinglePost_call (facade_calls pre)
            \<and> ((e = InvalidParamError ''preference.name'' \<and> \<not> list_ex is_denial pre)
               \<or> (e = PermissionError PermissionReadChannel
                   \<and> (\<exists>pre' q. pre = pre' @ [Queried q False] \<and> \<not> list_ex is_denial pre'
                         \<and> (\<forall>k\<in>set (facade_calls pre'). facade_error app k = None))))))
    \<or> (uid \<noteq> [] \<and> SessionHasPermissionToUser app session uid
       \<and> (\<exists>prefs c2 c3 es. PreferencesFromJson m (Body r) = Inr prefs
            \<and> App c2 = app \<and> Session c2 = session \<and> sanitize prefs [] c2 = (Some prefs, c3)
            \<and> errors_set es = [] \<and> audit_made es = [] \<and> audit_logged es = []
            \<and> \<not> list_ex is_denial es
            \<and> list_all is_GetSinglePost_call (facade_calls es)
            \<and> (\<forall>k\<in>set (facade_calls es). facade_error app k = None)
            \<and> ((\<exists>err. UpdatePreferences app uid prefs = Some err \<and> Err c' = Some err
                  \<and> Trace c' = [AuditRecMade rec0, asked True] @ es
                       @ [Called (UpdatePreferences_call uid prefs), ErrSet err,
                          AuditRecLogged rec0])
               \<or> (UpdatePreferences app uid prefs = None \<and> Err c' = None
                  \<and> Trace c' = [AuditRecMade rec0, asked True] @ es
                       @ [Called (UpdatePreferences_call uid prefs), Written StatusOK,
                          AuditRecLogged (rec0\<lparr>Status := audit_Success\<rparr>)]))))"
proof (cases "uid = []")
  case True
  then show ?thesis
    by (simp add: c'_def uid_def updatePreferences_def ctx_defs)
next
  case uid: False
  show ?thesis
  proof (cases "SessionHasPermissionToUser app session uid")
    case False
    with uid show ?thesis
      by (simp add: c'_def uid_def rec0_def asked_def updatePreferences_def
            updatePreferences_deferred_def ctx_defs Let_def)
  next
    case perm: True
    show ?thesis
    proof (cases "PreferencesFromJson m (Body r)")
      case (Inl err)
      with uid perm show ?thesis
        by (simp add: c'_def uid_def rec0_def asked_def updatePreferences_def
              updatePreferences_deferred_def ctx_defs Let_def)
    next
      case (Inr prefs)
      define c2 where "c2 = \<lparr>App = app, Params = params, Session = session, Err = None,
                            Trace = [AuditRecMade rec0, asked True]\<rparr>"
      obtain res c3 where san: "sanitize prefs [] c2 = (res, c3)"
        by (cases "sanitize prefs [] c2")
      note frame = sanitize_frame [OF san]
      have c2: "App c2 = app" "Session c2 = session" "Params c2 = params"
        "Trace c2 = [AuditRecMade rec0, asked True]" "Err c2 = None"
        by (simp_all add: c2_def)
      show ?thesis
      proof (cases res)
        case None
        from sanitize_stop [OF san [unfolded None]] obtain pre e where
          pre: "Trace c3 = Trace c2 @ pre @ [ErrSet e]" "Err c3 = Some e"
            "errors_set pre = []" "audit_made pre = []" "audit_logged pre = []"
            "list_all is_GetSinglePost_call (facade_calls pre)"
            "(e = InvalidParamError ''preference.name'' \<and> \<not> list_ex is_denial pre)
             \<or> (e = PermissionError PermissionReadChannel
                 \<and> (\<exists>pre' q. pre = pre' @ [Queried q False] \<and> \<not> list_ex is_denial pre'
                    \<and> (\<forall>k\<in>set (facade_calls pre'). facade_error (App c2) k = None)))"
          by blast
        have c'_eq: "c' = LogAuditRec rec0 c3"
          using uid perm Inr san None
          by (simp add: c'_def uid_def rec0_def asked_def updatePreferences_def
                updatePreferences_deferred_def ctx_defs Let_def c2_def)
        have "Err c' = Some e"
          "Trace c' = [AuditRecMade rec0, asked True] @ pre @ [ErrSet e, AuditRecLogged rec0]"
          using pre(1,2) c2 by (simp_all add: c'_eq ctx_defs)
        with uid perm Inr san [unfolded None] pre(3-6) pre(7) [unfolded c2(1)] c2(1,2)
        show ?thesis
          by - (rule disjI2, rule disjI2, rule disjI2, rule disjI1, blast)
      next
        case (Some sanitized)
        from sanitize_ok [OF san [unfolded Some]] obtain es where
          es: "sanitized = prefs" "Err c3 = Err c2" "Trace c3 = Trace c2 @ es"
            "errors_set es = []" "audit_made es = []" "audit_logged es = []"
            "\<not> list_ex is_denial es" "list_all is_GetSinglePost_call (facade_calls es)"
            "\<forall>k\<in>set (facade_calls es). facade_error (App c2) k = None"
          by auto
        have unfolded: "c' =
            (let c = call (UpdatePreferences_call uid prefs) c3 in
             case UpdatePreferences app uid prefs of
               Some err \<Rightarrow> LogAuditRec rec0 (set_Err err c)
             | None \<Rightarrow> LogAuditRec (Success rec0) (ReturnStatusOK c))"
          using uid perm Inr san Some es(1) frame c2
          by (simp add: c'_def uid_def rec0_def asked_def updatePreferences_def
                updatePreferences_deferred_def ctx_defs Let_def c2_def
              split: option.splits)
        have "(\<exists>err. UpdatePreferences app uid prefs = Some err \<and> Err c' = Some err
                  \<and> Trace c' = [AuditRecMade rec0, asked True] @ es
                       @ [Called (UpdatePreferences_call uid prefs), ErrSet err,
                          AuditRecLogged rec0])
               \<or> (UpdatePreferences app uid prefs = None \<and> Err c' = None
                  \<and> Trace c' = [AuditRecMade rec0, asked True] @ es
                       @ [Called (UpdatePreferences_call uid prefs), Written StatusOK,
                          AuditRecLogged (rec0\<lparr>Status := audit_Success\<rparr>)])"
          using es(2,3) c2
          by (cases "UpdatePreferences app uid prefs") (simp_all add: unfolded ctx_defs)
        with uid perm Inr san [unfolded Some es(1)] es(4-8) es(9) [unfolded c2(1)] c2(1,2)
        show ?thesis
          by - (rule disjI2, rule disjI2, rule disjI2, rule disjI2, blast)
      qed
    qed
  qed
qed

lemmas handler_defs = simple_handler_defs updatePreferences_def updatePreferences_deferred_def

lemma chain_failure:
  "first_missing rt params = Some name \<Longrightarrow>
     handle rt m r (NewContext app params session)
       = \<lparr>App = app, Params = params, Session = session,
          Err = Some (InvalidParamError name), Trace = [ErrSet (InvalidParamError name)]\<rparr>"
  by (cases rt; cases "Params.UserId params = []"; cases "Params.Category params = []";
      cases "Params.PreferenceName params = []"; cases "Params.SchemeId params = []")
     (simp_all add: first_missing_def ctx_defs handler_defs)

lemma require_noop:
  "Err c \<noteq> None \<Longrightarrow>
     RequireUserId c = c \<and> RequireSchemeId c = c \<and> RequireCategory c = c
     \<and> RequirePreferenceName c = c"
  by (simp add: RequireUserId_def RequireSchemeId_def RequireCategory_def
        RequirePreferenceName_def)

lemma handler_noop:
  "Err c \<noteq> None \<Longrightarrow> required rt \<noteq> [] \<Longrightarrow> handle rt m r c = c"
  by (cases rt) (simp_all add: require_noop handler_defs)

lemma latch_simple:
  fixes rt m r app params session
  assumes "rt \<noteq> PUT_preferences"
  defines "c' \<equiv> handle rt m r (NewContext app params session)"
  shows "length (errors_set (Trace c')) \<le> 1
     \<and> Err c' = (case errors_set (Trace c') of [] \<Rightarrow> None | e # es \<Rightarrow> Some e)
     \<and> list_all is_AuditRecLogged (after_first_error (Trace c'))"
  using assms(1) unfolding c'_def
  by (cases rt) (auto simp: ctx_defs simple_handler_defs obs_defs Let_def
       split: sum.splits option.splits)

lemma no_ErrSet: "errors_set es = [] \<Longrightarrow> e \<in> set es \<Longrightarrow> \<not> is_ErrSet e"
  by (induction es) (auto simp: errors_set_def elim: is_ErrSet.elims split: if_splits)

lemma after_first_error_append:
  "errors_set es = [] \<Longrightarrow> after_first_error (es @ ErrSet e # rest) = rest"
  by (simp add: after_first_error_def dropWhile_append3 no_ErrSet)

lemma after_first_error_none:
  "errors_set es = [] \<Longrightarrow> after_first_error es = []"
  using no_ErrSet [of es] by (simp add: after_first_error_def dropWhile_eq_Nil_conv [THEN iffD2])

lemma obs_simps:
  "errors_set [] = []" "errors_set (ev # es) = error_set_of ev @ errors_set es"
  "errors_set (es @ es') = errors_set es @ errors_set es'"
  "facade_calls [] = []" "facade_calls (ev # es) = facade_call_of ev @ facade_calls es"
  "facade_calls (es @ es') = facade_calls es @ facade_calls es'"
  "queries [] = []" "queries (ev # es) = query_of ev @ queries es"
  "queries (es @ es') = queries es @ queries es'"
  "audit_made [] = []" "audit_made (ev # es) = audit_made_of ev @ audit_made es"
  "audit_made (es @ es') = audit_made es @ audit_made es'"
  "audit_logged [] = []" "audit_logged (ev # es) = audit_logged_of ev @ audit_logged es"
  "audit_logged (es @ es') = audit_logged es @ audit_logged es'"
  by (simp_all add: obs_defs)

lemma latch_updatePreferences:
  fixes m r app params session
  defines "c' \<equiv> updatePreferences m r (NewContext app params session)"
  shows "length (errors_set (Trace c')) \<le> 1
     \<and> Err c' = (case errors_set (Trace c') of [] \<Rightarrow> None | e # es \<Rightarrow> Some e)
     \<and> list_all is_AuditRecLogged (after_first_error (Trace c'))"
  using updatePreferences_outcome [where app = app and params = params and session = session and m = m and r = r] unfolding c'_def
  apply (elim disjE conjE exE)
       apply (simp add: obs_defs)
      apply (simp add: obs_defs)
     apply (simp add: obs_defs)
  subgoal for prefs c2 c3 pre e
    using after_first_error_append [of "[AuditRecMade \<lparr>EventName = ''updatePreferences'', Status = audit_Fail, Meta = []\<rparr>, Queried (PermissionToUser session (Params.UserId params)) True] @ pre" e]
    by (simp add: obs_simps)
  subgoal for prefs c2 c3 pre e pre' q
    using after_first_error_append [of "[AuditRecMade \<lparr>EventName = ''updatePreferences'', Status = audit_Fail, Meta = []\<rparr>, Queried (PermissionToUser session (Params.UserId params)) True] @ pre" e]
    by (simp add: obs_simps)
  subgoal for prefs c2 c3 es err
    using after_first_error_append [of "[AuditRecMade \<lparr>EventName = ''updatePreferences'', Status = audit_Fail, Meta = []\<rparr>, Queried (PermissionToUser session (Params.UserId params)) True] @ es @ [Called (UpdatePreferences_call (Params.UserId params) prefs)]" err]
    by (simp add: obs_simps)
  subgoal for prefs c2 c3 es
    using after_first_error_none [of "[AuditRecMade \<lparr>EventName = ''updatePreferences'', Status = audit_Fail, Meta = []\<rparr>, Queried (PermissionToUser session (Params.UserId params)) True] @ es @ [Called (UpdatePreferences_call (Params.UserId params) prefs), Written StatusOK, AuditRecLogged \<lparr>EventName = ''updatePreferences'', Status = audit_Success, Meta = []\<rparr>]"]
    by (simp add: obs_simps)
  done


lemma latch_all:
  fixes rt m r app params session
  defines "c' \<equiv> handle rt m r (NewContext app params session)"
  shows "length (errors_set (Trace c')) \<le> 1
     \<and> Err c' = (case errors_set (Trace c') of [] \<Rightarrow> None | e # es \<Rightarrow> Some e)
     \<and> list_all is_AuditRecLogged (after_first_error (Trace c'))"
proof (cases "rt = PUT_preferences")
  case True
  then show ?thesis unfolding c'_def using latch_updatePreferences by simp
next
  case False
  then show ?thesis unfolding c'_def by (rule latch_simple)
qed

text \<open>
  C8: the error slot of a request is a write-once latch. Once it is set, every check of
  the validation chain leaves the context as it is, and so does every handler that starts
  with such a chain. From a fresh context a handler writes the slot at most once, the
  slot holds what was written, and nothing follows the write but the deferred emission
  of the audit record. So when several required parameters are missing, only the first
  check that was declared reports: with both the user id and the category missing, the
  handler for the preferences of a category reports the user id alone.
\<close>

theorem error_slot_is_latch:
  fixes rt m r app params session c name
  defines "c' \<equiv> handle rt m r (NewContext app params session)"
  shows "(Err c \<noteq> None \<longrightarrow>
            RequireUserId c = c \<and> RequireSchemeId c = c \<and> RequireCategory c = c
            \<and> RequirePreferenceName c = c)
     \<and> (Err c \<noteq> None \<and> required rt \<noteq> [] \<longrightarrow> handle rt m r c = c)
     \<and> length (errors_set (Trace c')) \<le> 1
     \<and> Err c' = (case errors_set (Trace c') of [] \<Rightarrow> None | e # es \<Rightarrow> Some e)
     \<and> list_all is_AuditRecLogged (after_first_error (Trace c'))
     \<and> (first_missing rt params = Some name \<longrightarrow>
          Trace c' = [ErrSet (InvalidParamError name)])"
  using require_noop [of c] handler_noop [of c rt m r]
    latch_all [of rt m r app params session] chain_failure [of rt params name m r app session]
  unfolding c'_def by simp

theorem error_slot_is_latch_witness:
  "Err (set_Err not_found (NewContext demo_app no_params user1)) \<noteq> None
   \<and> required GET_preferences_category \<noteq> []
   \<and> first_missing GET_preferences_category no_params = Some ''UserId''
   \<and> handle GET_preferences_category demo_model \<lparr>Body = ''''\<rparr>
        (set_Err not_found (NewContext demo_app no_params user1))
      = set_Err not_found (NewContext demo_app no_params user1)
   \<and> Trace (handle GET_preferences_category demo_model \<lparr>Body = ''''\<rparr>
        (NewContext demo_app no_params user1)) = [ErrSet (InvalidParamError ''UserId'')]"
  using error_slot_is_latch [of "set_Err not_found (NewContext demo_app no_params user1)"
      GET_preferences_category demo_model "\<lparr>Body = ''''\<rparr>" demo_app no_params user1 "''UserId''"]
  by (simp add: first_missing_def no_params_def set_Err_def emit_def)

text \<open>
  C9, as amended: when a required parameter of a handler is absent or empty, the handler
  ends with an invalid-parameter error of status 400 that names the first required
  parameter, in the order of the chain, that is absent or empty; the oracle is not asked,
  the facade is not called and no audit record is written. The error names exactly the
  missing parameter when no parameter declared before it is missing as well.
\<close>

theorem missing_parameter_reported:
  fixes rt m r app params session name
  defines "c' \<equiv> handle rt m r (NewContext app params session)"
  assumes "first_missing rt params = Some name"
  shows "Err c' = Some (InvalidParamError name)
     \<and> HttpStatus (InvalidParamError name) = StatusBadRequest
     \<and> (\<exists>field. (name, field) \<in> set (required rt) \<and> field params = [])
     \<and> facade_calls (Trace c') = [] \<and> queries (Trace c') = []
     \<and> audit_logged (Trace c') = []"
proof -
  from assms(2) obtain field where "find (\<lambda>(name, field). field params = []) (required rt)
      = Some (name, field)"
    by (auto simp: first_missing_def)
  then have "(name, field) \<in> set (required rt) \<and> field params = []"
    by (auto simp: find_Some_iff in_set_conv_nth)
  then show ?thesis
    using chain_failure [OF assms(2), of m r app session]
    unfolding c'_def by (auto simp: obs_defs)
qed

theorem missing_parameter_reported_witness:
  "first_missing GET_preferences_category (no_params\<lparr>UserId := ''user1''\<rparr>) = Some ''Category''
   \<and> Err (handle GET_preferences_category demo_model \<lparr>Body = ''''\<rparr>
        (NewContext demo_app (no_params\<lparr>UserId := ''user1''\<rparr>) user1))
      = Some (InvalidParamError ''Category'')"
proof -
  have missing: "first_missing GET_preferences_category (no_params\<lparr>UserId := ''user1''\<rparr>)
      = Some ''Category''"
    by (simp add: first_missing_def no_params_def)
  show ?thesis
    using missing missing_parameter_reported [OF missing, of demo_model "\<lparr>Body = ''''\<rparr>" demo_app user1]
    by simp
qed

text \<open>
  The claim C9 as it is stated fails: with the user id and the category both absent, the
  category is a required parameter that is absent, and the error does not name it.
\<close>

theorem missing_parameter_reported_counterexample:
  "Params.Category no_params = []
   \<and> Err (handle GET_preferences_category demo_model \<lparr>Body = ''''\<rparr>
        (NewContext demo_app no_params user1)) \<noteq> Some (InvalidParamError ''Category'')"
  by (simp add: no_params_def getPreferencesByCategory_def RequireUserId_def
        RequireCategory_def NewContext_def SetInvalidParam_def set_Err_def emit_def)

section \<open>Scope and licence gates\<close>

text \<open>
  C7, as amended: once getTeamsForScheme has loaded a scheme, a scope other than team ends
  the request with status 400 before the second facade call, GetTeamsForSchemePage; with
  the team scope the second call is made, and the request succeeds exactly when that
  call returns no error, whose error is otherwise the error of the request. The same
  holds for getChannelsForScheme with the channel scope and GetChannelsForSchemePage.
\<close>

theorem scope_gate:
  fixes app params session m r scheme
  defines "teams' \<equiv> handle GET_scheme_teams m r (NewContext app params session)"
  defines "channels' \<equiv> handle GET_scheme_channels m r (NewContext app params session)"
  assumes "SchemeId params \<noteq> []" and "GetScheme app (SchemeId params) = Inr scheme"
  shows
   "(SessionHasPermissionTo app session PermissionSysconsoleReadUserManagementTeams \<longrightarrow>
      (if Scheme.Scope scheme \<noteq> SchemeScopeTeam
       then Err teams' = Some (NewAppError ''Api4.GetTeamsForScheme''
                 ''api.scheme.get_teams_for_scheme.scope.error'' [] '''' StatusBadRequest)
            \<and> facade_calls (Trace teams') = [GetScheme_call (SchemeId params)]
       else facade_calls (Trace teams')
              = [GetScheme_call (SchemeId params),
                 GetTeamsForSchemePage_call scheme (Page params) (PerPage params)]
            \<and> (case GetTeamsForSchemePage app scheme (Page params) (PerPage params) of
                  Inl err \<Rightarrow> Err teams' = Some err
                | Inr teams \<Rightarrow> Err teams' = None
                    \<and> last (Trace teams') = Written (TeamListJson teams))))
    \<and> (SessionHasPermissionTo app session PermissionSysconsoleReadUserManagementChannels \<longrightarrow>
      (if Scheme.Scope scheme \<noteq> SchemeScopeChannel
       then Err channels' = Some (NewAppError ''Api4.GetChannelsForScheme''
                 ''api.scheme.get_channels_for_scheme.scope.error'' [] '''' StatusBadRequest)
            \<and> facade_calls (Trace channels') = [GetScheme_call (SchemeId params)]
       else facade_calls (Trace channels')
              = [GetScheme_call (SchemeId params),
                 GetChannelsForSchemePage_call scheme (Page params) (PerPage params)]
            \<and> (case GetChannelsForSchemePage app scheme (Page params) (PerPage params) of
                  Inl err \<Rightarrow> Err channels' = Some err
                | Inr channels \<Rightarrow> Err channels' = None
                    \<and> last (Trace channels') = Written (ChannelListJson channels))))"
  using assms(3,4) unfolding teams'_def channels'_def
  by (simp add: getTeamsForScheme_def getChannelsForScheme_def ctx_defs obs_defs Let_def
      split: sum.splits)

theorem scope_gate_witness:
  "SchemeId (no_params\<lparr>SchemeId := ''scheme2''\<rparr>) \<noteq> []
   \<and> GetScheme demo_app ''scheme2'' = Inr channel_scheme
   \<and> HttpStatus (the (Err (handle GET_scheme_teams demo_model \<lparr>Body = ''''\<rparr>
         (NewContext demo_app (no_params\<lparr>SchemeId := ''scheme2''\<rparr>) admin)))) = StatusBadRequest
   \<and> facade_calls (Trace (handle GET_scheme_teams demo_model \<lparr>Body = ''''\<rparr>
         (NewContext demo_app (no_params\<lparr>SchemeId := ''scheme2''\<rparr>) admin)))
      = [GetScheme_call ''scheme2'']
   \<and> Err (handle GET_scheme_channels demo_model \<lparr>Body = ''''\<rparr>
         (NewContext demo_app (no_params\<lparr>SchemeId := ''scheme2''\<rparr>) admin)) = None"
proof -
  have loaded: "SchemeId (no_params\<lparr>SchemeId := ''scheme2''\<rparr>) \<noteq> []"
    "GetScheme demo_app (SchemeId (no_params\<lparr>SchemeId := ''scheme2''\<rparr>)) = Inr channel_scheme"
    by (simp_all add: no_params_def demo_app_def)
  show ?thesis
    using loaded scope_gate [OF loaded, of admin demo_model "\<lparr>Body = ''''\<rparr>"]
    by (simp add: demo_app_def admin_def channel_scheme_def no_params_def)
qed

text \<open>
  The claim C7 as it is stated fails: a team scheme is loaded, the scope matches, and the
  request still ends with the error of the second call.
\<close>

theorem scope_gate_counterexample:
  "GetScheme demo_app ''scheme1'' = Inr team_scheme
   \<and> Scheme.Scope team_scheme = SchemeScopeTeam
   \<and> Err (handle GET_scheme_teams demo_model \<lparr>Body = ''''\<rparr>
         (NewContext demo_app (no_params\<lparr>SchemeId := ''scheme1'', Page := 1\<rparr>) admin))
      = Some store_down"
  by (simp add: getTeamsForScheme_def ctx_defs Let_def demo_app_def admin_def team_scheme_def
        no_params_def)

lemma license_gate:
  fixes rt m r app params session
  defines "c' \<equiv> handle rt m r (NewContext app params session)"
  assumes "license_gated rt" and "license_missing app" and "validated rt m r params"
  shows "(\<exists>location ident.
            Err c' = Some (NewAppError location ident [] '''' StatusNotImplemented))
     \<and> queries (Trace c') = [] \<and> facade_calls (Trace c') = []
     \<and> map Status (audit_logged (Trace c')) = [audit_Fail]"
  using assms(2-4) unfolding c'_def
  by (cases rt; cases "Params.SchemeId params = []")
     (auto simp: validated_def first_missing_def createScheme_def createScheme_deferred_def
        patchScheme_def patchScheme_deferred_def deleteScheme_def deleteScheme_deferred_def
        ctx_defs obs_defs Let_def)

text \<open>
  C3, as amended: for createScheme, patchScheme and deleteScheme, on a request that passes
  the parameter validation of the handler (the scheme id is present, the body decodes),
  a missing licence or a false CustomPermissionsSchemes flag ends the request with the
  NotImplemented error of status 501. The permission oracle is not asked and the facade
  is not called, so the outcome is the same whatever the oracle would answer.
\<close>

theorem license_gate_first:
  fixes rt m r app params session answers
  defines "c' \<equiv> handle rt m r (NewContext app params session)"
  defines "other \<equiv> handle rt m r
                     (NewContext (app\<lparr>SessionHasPermissionTo := answers\<rparr>) params session)"
  assumes "license_gated rt" and "license_missing app" and "validated rt m r params"
  shows "(\<exists>location ident.
            Err c' = Some (NewAppError location ident [] '''' StatusNotImplemented))
     \<and> (\<exists>err. Err c' = Some err \<and> HttpStatus err = StatusNotImplemented)
     \<and> queries (Trace c') = [] \<and> facade_calls (Trace c') = []
     \<and> map Status (audit_logged (Trace c')) = [audit_Fail]
     \<and> Err other = Err c' \<and> Trace other = Trace c'"
proof -
  have "license_missing (app\<lparr>SessionHasPermissionTo := answers\<rparr>)"
    using assms(4) by (simp add: license_missing_def)
  then have "Err other = Err c' \<and> Trace other = Trace c'"
    using assms(3-5) unfolding c'_def other_def
    by (cases rt; cases "Params.SchemeId params = []")
       (auto simp: validated_def first_missing_def createScheme_def createScheme_deferred_def
          patchScheme_def patchScheme_deferred_def deleteScheme_def deleteScheme_deferred_def
          ctx_defs Let_def)
  moreover note license_gate [OF assms(3-5), of session]
  ultimately show ?thesis unfolding c'_def by auto
qed

theorem license_gate_first_witness:
  "license_gated POST_schemes \<and> license_missing unlicensed_app
   \<and> validated POST_schemes demo_model \<lparr>Body = ''scheme''\<rparr> no_params
   \<and> Err (handle POST_schemes demo_model \<lparr>Body = ''scheme''\<rparr>
            (NewContext unlicensed_app no_params admin))
      = Some (NewAppError ''Api4.CreateScheme'' ''api.scheme.create_scheme.license.error''
                [] '''' StatusNotImplemented)"
proof -
  have gate: "license_gated POST_schemes" "license_missing unlicensed_app"
    "validated POST_schemes demo_model \<lparr>Body = ''scheme''\<rparr> no_params"
    by (simp_all add: license_missing_def unlicensed_app_def validated_def first_missing_def
          demo_model_def)
  show ?thesis
    using gate license_gate_first [OF gate, of admin]
    by (simp add: createScheme_def createScheme_deferred_def ctx_defs Let_def demo_model_def
          license_missing_def unlicensed_app_def)
qed

text \<open>
  The claim C3 as it is stated fails: without a licence, a createScheme request whose body
  does not decode ends with the invalid-parameter error of status 400, not with 501.
\<close>

theorem license_gate_first_counterexample:
  "license_gated POST_schemes \<and> license_missing unlicensed_app
   \<and> Err (handle POST_schemes demo_model \<lparr>Body = ''not json''\<rparr>
            (NewContext unlicensed_app no_params admin))
      = Some (InvalidParamError ''scheme'')
   \<and> HttpStatus (InvalidParamError ''scheme'') = StatusBadRequest"
  by (simp add: createScheme_def ctx_defs demo_model_def license_missing_def
        unlicensed_app_def)

end
